theory Spec2Isabelle
  imports Complex_Main "HOL-Library.Sublist"
begin

text \<open>
  A model of the dashboard's three parts that hold logic: the log store (\<^verbatim>\<open>addLog\<close>),
  the scripted run (\<^verbatim>\<open>startSimulation\<close>) with \<^verbatim>\<open>resetSimulator\<close>, and the analysis
  request (\<^verbatim>\<open>analyzeNFCLogs\<close>, called by \<^verbatim>\<open>handleAnalyze\<close>). The cells of the React
  component are a record, each setter and each handler is a function on it, and what
  the code reads from outside (the clock, the random generator, the answer of the
  service) is an argument. The markup is not modelled beyond the three buttons and the
  conditions under which they are disabled.
\<close>

section \<open>Data model (types.ts)\<close>

text \<open>
  The enum \<^verbatim>\<open>ATMAttackState\<close>, with its eight members in the order of the source.
\<close>

datatype ATMAttackState =
  IDLE | SCANNING | CARD_DETECTED | PIN_BYPASS | AMOUNT_SELECTION
  | TRANSACTION_PROCESSING | COMPLETED | FAILED

text \<open>The union type of \<^verbatim>\<open>LogEntry.level\<close>.\<close>

datatype level = INFO | WARNING | ERROR | SUCCESS

text \<open>
  Values of type \<^verbatim>\<open>any\<close>, and whatever \<^verbatim>\<open>JSON.parse\<close> returns: a JSON value. \<open>JNull\<close>
  is \<^verbatim>\<open>null\<close>. An object is the list of its members in insertion order, read by key
  with \<open>map_of\<close>. A number carries the exact value of its literal.
\<close>

datatype json =
  JNull
  | JBool bool
  | JNumber rat
  | JString string
  | JArray "json list"
  | JObject "(string \<times> json) list"

record ATMAccount =
  accountNumber :: string
  balance :: rat
  pin :: string
  lastActivity :: int

text \<open>
  \<^verbatim>\<open>LogEntry\<close>. The field \<^verbatim>\<open>id\<close> is \<open>id'\<close> here; the optional \<^verbatim>\<open>data\<close> is an option.
\<close>

record LogEntry =
  id' :: string
  timestamp :: int
  level :: level
  message :: string
  data :: "json option"

text \<open>
  \<^verbatim>\<open>AnalysisResult\<close> is an interface: TypeScript checks it at compile time only, and the
  cast \<^verbatim>\<open>JSON.parse(...) as AnalysisResult\<close> checks nothing at run time. So a value of
  that type is, at run time, any JSON value, and the interface is a predicate on it:
  an object whose four members are present with the declared types.
\<close>

fun is_string :: "json \<Rightarrow> bool" where
  "is_string (JString _) = True"
| "is_string _ = False"

fun is_number :: "json \<Rightarrow> bool" where
  "is_number (JNumber _) = True"
| "is_number _ = False"

fun is_string_array :: "json \<Rightarrow> bool" where
  "is_string_array (JArray xs) = list_all is_string xs"
| "is_string_array _ = False"

definition has_member :: "(json \<Rightarrow> bool) \<Rightarrow> string \<Rightarrow> (string \<times> json) list \<Rightarrow> bool" where
  "has_member ty k ms = (case map_of ms k of None \<Rightarrow> False | Some v \<Rightarrow> ty v)"

fun is_AnalysisResult :: "json \<Rightarrow> bool" where
  "is_AnalysisResult (JObject ms) =
     (has_member is_number ''vulnerabilityScore'' ms
      \<and> has_member is_string ''threatType'' ms
      \<and> has_member is_string_array ''recommendations'' ms
      \<and> has_member is_string ''summary'' ms)"
| "is_AnalysisResult _ = False"

text \<open>The weaker reading: an object that has the four members, whatever their values.\<close>

fun has_four_fields :: "json \<Rightarrow> bool" where
  "has_four_fields (JObject ms) =
     (map_of ms ''vulnerabilityScore'' \<noteq> None
      \<and> map_of ms ''threatType'' \<noteq> None
      \<and> map_of ms ''recommendations'' \<noteq> None
      \<and> map_of ms ''summary'' \<noteq> None)"
| "has_four_fields _ = False"

text \<open>An object literal of type \<^verbatim>\<open>AnalysisResult\<close>, members in the order written.\<close>

definition AnalysisResult :: "rat \<Rightarrow> string \<Rightarrow> string list \<Rightarrow> string \<Rightarrow> json" where
  "AnalysisResult score threat recs summ =
     JObject [(''vulnerabilityScore'', JNumber score),
              (''threatType'', JString threat),
              (''recommendations'', JArray (map JString recs)),
              (''summary'', JString summ)]"

section \<open>Component state (the \<^verbatim>\<open>useState\<close> cells of \<^verbatim>\<open>App\<close>)\<close>

record app_state =
  state :: ATMAttackState
  logs :: "LogEntry list"
  accounts :: "ATMAccount list"
  selectedAmount :: int
  analysis :: json
  isAnalyzing :: bool

text \<open>
  The initial values of the cells. \<open>t0\<close> and \<open>t1\<close> are the two readings of
  \<^verbatim>\<open>Date.now()\<close> when the component mounts. The cell \<^verbatim>\<open>analysis\<close> has the type
  \<^verbatim>\<open>AnalysisResult | null\<close>: it holds a JSON value, and \<open>JNull\<close> when the result is absent.
\<close>

definition initial :: "int \<Rightarrow> int \<Rightarrow> app_state" where
  "initial t0 t1 =
     \<lparr>state = IDLE,
      logs = [],
      accounts =
        [\<lparr>accountNumber = ''4532 **** **** 1092'', balance = 2901 / 2, pin = ''1234'',
          lastActivity = t0\<rparr>,
         \<lparr>accountNumber = ''5102 **** **** 8831'', balance = 520, pin = ''4321'',
          lastActivity = t1 - 3600000\<rparr>],
      selectedAmount = 0,
      analysis = JNull,
      isAnalyzing = False\<rparr>"

text \<open>
  The setters. \<^verbatim>\<open>setLogs\<close> is given an updater in \<^verbatim>\<open>addLog\<close> and a value in
  \<^verbatim>\<open>resetSimulator\<close>; the value form is the constant updater.
\<close>

type_synonym stmt = "app_state \<Rightarrow> app_state"

definition setState :: "ATMAttackState \<Rightarrow> stmt" where
  "setState v s = s\<lparr>state := v\<rparr>"

definition setLogs :: "(LogEntry list \<Rightarrow> LogEntry list) \<Rightarrow> stmt" where
  "setLogs f s = s\<lparr>logs := f (logs s)\<rparr>"

definition setSelectedAmount :: "int \<Rightarrow> stmt" where
  "setSelectedAmount v s = s\<lparr>selectedAmount := v\<rparr>"

definition setAnalysis :: "json \<Rightarrow> stmt" where
  "setAnalysis v s = s\<lparr>analysis := v\<rparr>"

definition setIsAnalyzing :: "bool \<Rightarrow> stmt" where
  "setIsAnalyzing v s = s\<lparr>isAnalyzing := v\<rparr>"

section \<open>The log store: \<^verbatim>\<open>addLog\<close>\<close>

text \<open>
  What \<^verbatim>\<open>addLog\<close> reads from the platform at one call: \<open>random36\<close> is the text
  \<^verbatim>\<open>Math.random().toString(36)\<close> (such as \<^verbatim>\<open>0.4fzyo82mvyr\<close>), \<open>now\<close> is \<^verbatim>\<open>Date.now()\<close>.
\<close>

record stamp =
  random36 :: string
  now :: int

text \<open>\<^verbatim>\<open>s.substr(start, len)\<close> for a start and a length that are not negative.\<close>

definition substr :: "nat \<Rightarrow> nat \<Rightarrow> string \<Rightarrow> string" where
  "substr start len s = take len (drop start s)"

definition newLog :: "stamp \<Rightarrow> string \<Rightarrow> level \<Rightarrow> json option \<Rightarrow> LogEntry" where
  "newLog e msg lvl d =
     \<lparr>id' = substr 2 9 (random36 e), timestamp = now e, level = lvl, message = msg, data = d\<rparr>"

definition addLog :: "stamp \<Rightarrow> string \<Rightarrow> level \<Rightarrow> json option \<Rightarrow> stmt" where
  "addLog e msg lvl d = setLogs (\<lambda>prev. prev @ [newLog e msg lvl d])"

section \<open>\<^verbatim>\<open>resetSimulator\<close>\<close>

text \<open>Statements run in the order written.\<close>

definition exec :: "stmt list \<Rightarrow> app_state \<Rightarrow> app_state" where
  "exec ss s = fold (\<lambda>f. f) ss s"

definition resetSimulator :: stmt where
  "resetSimulator =
     exec [setState IDLE, setLogs (\<lambda>_. []), setSelectedAmount 0, setAnalysis JNull]"

section \<open>The scripted run: \<^verbatim>\<open>startSimulation\<close>\<close>

text \<open>
  A template literal \<^verbatim>\<open>${n}\<close> of an integer \<open>n\<close> is its decimal numeral (for a
  magnitude below \<open>10^21\<close>, where JavaScript does not switch to exponent form).
\<close>

fun show_nat :: "nat \<Rightarrow> string" where
  "show_nat n =
     (if n < 10 then [''0123456789'' ! n]
      else show_nat (n div 10) @ [''0123456789'' ! (n mod 10)])"

declare show_nat.simps [simp del]

definition show_int :: "int \<Rightarrow> string" where
  "show_int i = (if i < 0 then CHR ''-'' # show_nat (nat (- i)) else show_nat (nat i))"

text \<open>
  What one run reads from the platform: \<open>stamps k\<close> is read by the \<open>k\<close>-th call of
  \<^verbatim>\<open>addLog\<close> of the run (from 0), and \<open>pick\<close> is the integer
  \<^verbatim>\<open>Math.floor(Math.random() * 200)\<close> drawn at the amount selection. The floating-point
  product is not modelled: the integer enters as it is.
\<close>

record sim_inputs =
  stamps :: "nat \<Rightarrow> stamp"
  pick :: int

text \<open>
  \<^verbatim>\<open>startSimulation\<close> is an async function: between two \<^verbatim>\<open>await\<close>s it runs a block of
  statements without interruption, and at an \<^verbatim>\<open>await\<close> it gives control back until its
  timer fires. It is the list of these blocks, each with the delay (in milliseconds)
  awaited before it. The constant \<^verbatim>\<open>amount\<close> is bound in the fourth block and read
  again in the sixth.
\<close>

definition startSimulation :: "sim_inputs \<Rightarrow> (nat \<times> stmt list) list" where
  "startSimulation inp =
     (let amount = pick inp + 20 in
      [(0,
        [setAnalysis JNull,
         setState SCANNING,
         addLog (stamps inp 0) ''NFC Controller initialized. Listening for targets...'' INFO None]),
       (2000,
        [setState CARD_DETECTED,
         addLog (stamps inp 1) ''Target Card Detected: ISO/IEC 14443 Type A'' SUCCESS
           (Some (JObject [(''uid'', JString ''04:A2:F1:C9'')]))]),
       (1500,
        [setState PIN_BYPASS,
         addLog (stamps inp 2)
           ''Executing PIN Bypass Payload (Modifying 0x9F34 CVM Results)...'' WARNING None]),
       (2000,
        [addLog (stamps inp 3) ''CVM verification bypassed. Authorized for Offline PIN.''
           SUCCESS None,
         setState AMOUNT_SELECTION,
         setSelectedAmount amount,
         addLog (stamps inp 4) (''Force-selecting withdrawal amount: $'' @ show_int amount)
           INFO None]),
       (1500,
        [setState TRANSACTION_PROCESSING,
         addLog (stamps inp 5) ''Broadcasting encrypted payload to reader...'' INFO None]),
       (2500,
        [setState COMPLETED,
         addLog (stamps inp 6)
           (''Simulation complete. Transaction accepted by mock gateway. Total: $''
             @ show_int amount)
           SUCCESS None])])"

text \<open>The statements of a run in the order they execute, and a run nothing interrupts.\<close>

definition statements :: "sim_inputs \<Rightarrow> stmt list" where
  "statements inp = concat (map snd (startSimulation inp))"

definition run :: "sim_inputs \<Rightarrow> app_state \<Rightarrow> app_state" where
  "run inp = exec (statements inp)"

text \<open>The states a list of statements passes through: the state after each statement.\<close>

fun trace :: "stmt list \<Rightarrow> app_state \<Rightarrow> app_state list" where
  "trace [] s = []"
| "trace (f # fs) s = f s # trace fs (f s)"

section \<open>The analysis requester: \<^verbatim>\<open>analyzeNFCLogs\<close> (services/geminiService)\<close>

text \<open>
  A call either returns a value or throws; for an async function, its promise is
  fulfilled or rejected. \<open>SyntaxError\<close> is what \<^verbatim>\<open>JSON.parse\<close> throws; \<open>ServiceError\<close>
  stands for whatever the call to the service is rejected with (no connection, a refused
  key, an HTTP error), with its message.
\<close>

datatype error = SyntaxError | ServiceError string

datatype 'a outcome = Returned 'a | Threw error

text \<open>
  The two library functions \<^verbatim>\<open>analyzeNFCLogs\<close> calls, as parameters: the theorems hold
  for whatever they compute. \<open>toISOString t\<close> is \<^verbatim>\<open>new Date(t).toISOString()\<close>; the
  timestamps it is applied to are readings of \<^verbatim>\<open>Date.now()\<close>, instants for which it
  returns.
\<close>

record platform =
  JSON_parse :: "string \<Rightarrow> json outcome"
  toISOString :: "int \<Rightarrow> string"

text \<open>
  The argument of \<^verbatim>\<open>ai.models.generateContent\<close> (of the response schema, each property
  with its type and description, and the required properties), and of its result the
  one member the code reads: \<^verbatim>\<open>response.text\<close>, which may be undefined. It is \<open>text'\<close>
  here.
\<close>

record request =
  model :: string
  contents :: string
  systemInstruction :: string
  responseMimeType :: string
  properties :: "(string \<times> string \<times> string) list"
  required :: "string list"

record response =
  text' :: "string option"

definition level_name :: "level \<Rightarrow> string" where
  "level_name l =
     (case l of INFO \<Rightarrow> ''INFO'' | WARNING \<Rightarrow> ''WARNING'' | ERROR \<Rightarrow> ''ERROR''
      | SUCCESS \<Rightarrow> ''SUCCESS'')"

text \<open>\<^verbatim>\<open>xs.join(sep)\<close>.\<close>

fun join :: "string \<Rightarrow> string list \<Rightarrow> string" where
  "join sep [] = []"
| "join sep [x] = x"
| "join sep (x # y # ys) = x @ sep @ join sep (y # ys)"

text \<open>\<^verbatim>\<open>t || d\<close> on an optional string: undefined and the empty string are falsy.\<close>

definition or_else :: "string option \<Rightarrow> string \<Rightarrow> string" where
  "or_else t d = (case t of None \<Rightarrow> d | Some x \<Rightarrow> if x = [] then d else x)"

text \<open>The object returned in the \<^verbatim>\<open>catch\<close> block.\<close>

definition fallback :: json where
  "fallback =
     AnalysisResult 0 ''Analysis Failed'' [''Ensure API connectivity'', ''Check log formatting'']
       ''Could not generate analysis at this time.''"

text \<open>
  \<^verbatim>\<open>analyzeNFCLogs\<close> has one \<^verbatim>\<open>await\<close>, on the call to the service. Up to it, it
  builds the request; from it on, it handles what the call gave: a rejection is outside
  the \<^verbatim>\<open>try\<close> and rejects the function's own promise, and inside the \<^verbatim>\<open>try\<close> the
  parsed value is returned as it is. (\<^verbatim>\<open>console.error\<close> is not modelled.)
\<close>

definition analyzeNFCLogs_request :: "platform \<Rightarrow> LogEntry list \<Rightarrow> request" where
  "analyzeNFCLogs_request P ls =
     (let logContext =
        join [CHR 0x0A]
          (map (\<lambda>l. ''['' @ toISOString P (timestamp l) @ ''] '' @ level_name (level l)
                  @ '': '' @ message l) ls)
      in \<lparr>model = ''gemini-3-flash-preview'',
          contents =
            ''Analyze the following NFC transaction logs for security vulnerabilities like PIN bypass, transaction forcing, or relay attacks. ''
            @ [CHR 0x0A] @ ''    Logs:'' @ [CHR 0x0A] @ ''    '' @ logContext,
          systemInstruction =
            ''You are a world-class Cybersecurity Researcher specializing in EMV and NFC security. Return a detailed JSON analysis of the provided logs.'',
          responseMimeType = ''application/json'',
          properties =
            [(''vulnerabilityScore'', ''NUMBER'', ''A score from 0-100 indicating risk.''),
             (''threatType'', ''STRING'', ''Primary classification of the threat detected.''),
             (''recommendations'', ''ARRAY of STRING'', ''Actionable defense strategies.''),
             (''summary'', ''STRING'', ''Brief executive summary of findings.'')],
          required = [''vulnerabilityScore'', ''threatType'', ''recommendations'', ''summary'']\<rparr>)"

definition analyzeNFCLogs_response :: "platform \<Rightarrow> response outcome \<Rightarrow> json outcome" where
  "analyzeNFCLogs_response P answer =
     (case answer of
        Threw e \<Rightarrow> Threw e
      | Returned r \<Rightarrow>
          (case JSON_parse P (or_else (text' r) ''{}'') of
             Returned v \<Rightarrow> Returned v
           | Threw err \<Rightarrow> Returned fallback))"

text \<open>The whole function, for a service \<open>generateContent\<close> that answers at once.\<close>

definition analyzeNFCLogs ::
  "platform \<Rightarrow> (request \<Rightarrow> response outcome) \<Rightarrow> LogEntry list \<Rightarrow> json outcome" where
  "analyzeNFCLogs P generateContent ls =
     analyzeNFCLogs_response P (generateContent (analyzeNFCLogs_request P ls))"

section \<open>\<^verbatim>\<open>handleAnalyze\<close>\<close>

text \<open>
  \<^verbatim>\<open>handleAnalyze\<close> awaits \<^verbatim>\<open>analyzeNFCLogs\<close>, so it too runs in two parts. The first
  returns the state it leaves and the request it sent to the service, if it sent one.
  The second runs when the service has answered: the \<^verbatim>\<open>try\<close> branch or the \<^verbatim>\<open>catch\<close>
  branch, then the \<^verbatim>\<open>finally\<close> block. \<open>e\<close> is what its one \<^verbatim>\<open>addLog\<close> reads.
\<close>

definition handleAnalyze_begin :: "platform \<Rightarrow> app_state \<Rightarrow> app_state \<times> request option" where
  "handleAnalyze_begin P s =
     (if length (logs s) = 0 then (s, None)
      else (setIsAnalyzing True s, Some (analyzeNFCLogs_request P (logs s))))"

definition handleAnalyze_end :: "platform \<Rightarrow> response outcome \<Rightarrow> stamp \<Rightarrow> stmt" where
  "handleAnalyze_end P answer e =
     (case analyzeNFCLogs_response P answer of
        Returned result \<Rightarrow>
          exec [setAnalysis result,
                addLog e ''Gemini AI Analysis complete.'' SUCCESS None,
                setIsAnalyzing False]
      | Threw err \<Rightarrow>
          exec [addLog e ''Failed to analyze logs with Gemini.'' ERROR None,
                setIsAnalyzing False])"

text \<open>
  The whole handler, for a service that answers before anything else happens: the state
  it leaves and the requests it sent.
\<close>

definition handleAnalyze ::
  "platform \<Rightarrow> (request \<Rightarrow> response outcome) \<Rightarrow> stamp \<Rightarrow> app_state \<Rightarrow> app_state \<times> request list" where
  "handleAnalyze P generateContent e s =
     (case handleAnalyze_begin P s of
        (s1, None) \<Rightarrow> (s1, [])
      | (s1, Some req) \<Rightarrow> (handleAnalyze_end P (generateContent req) e s1, [req]))"

section \<open>The application: what can happen, in which order\<close>

text \<open>
  Everything runs on one thread, so what happens is a sequence of events, each run to
  its end before the next: a click on one of the three buttons, the timer of a run
  that firing resumes, or the answer of the service to a request. Besides the cells,
  the application then holds the runs that were started, each with the number of blocks
  it has executed, and the requests the service has not answered.
\<close>

record config =
  app :: app_state
  runs :: "(sim_inputs \<times> nat) list"
  pending :: "request list"

definition start :: "int \<Rightarrow> int \<Rightarrow> config" where
  "start t0 t1 = \<lparr>app = initial t0 t1, runs = [], pending = []\<rparr>"

text \<open>
  An event carries what the code it triggers reads from outside: \<open>ClickStart\<close> the
  readings of the run it starts, \<open>TimerFires i\<close> the position of the run that resumes,
  \<open>ServiceAnswers i a e\<close> the position of the answered request, the answer, and what
  the handler's \<^verbatim>\<open>addLog\<close> reads.
\<close>

datatype event =
  ClickStart sim_inputs
  | TimerFires nat
  | ClickAnalyze
  | ServiceAnswers nat "response outcome" stamp
  | ClickReset

text \<open>The \<open>k\<close>-th block of a run (from 0), if it has one.\<close>

definition block :: "sim_inputs \<Rightarrow> nat \<Rightarrow> stmt list option" where
  "block inp k =
     (if k < length (startSimulation inp) then Some (snd (startSimulation inp ! k)) else None)"

text \<open>
  One event; \<open>None\<close> when it cannot happen. The start button is disabled unless the
  state is \<^verbatim>\<open>IDLE\<close>, the analysis button is disabled while the log is empty or
  \<^verbatim>\<open>isAnalyzing\<close> is set, and the reset button is never disabled. Any run that has
  a block left may be the next to resume: the timers' durations are not modelled, so
  the model allows every order the durations allow, and more.
\<close>

definition fire :: "platform \<Rightarrow> event \<Rightarrow> config \<Rightarrow> config option" where
  "fire P ev c =
     (case ev of
        ClickStart inp \<Rightarrow>
          (if state (app c) \<noteq> IDLE then None
           else (case block inp 0 of
                   None \<Rightarrow> None
                 | Some b \<Rightarrow> Some (c\<lparr>app := exec b (app c), runs := runs c @ [(inp, 1)]\<rparr>)))
      | TimerFires i \<Rightarrow>
          (if i < length (runs c) then
             (case runs c ! i of
                (inp, k) \<Rightarrow>
                  (case block inp k of
                     None \<Rightarrow> None
                   | Some b \<Rightarrow>
                       Some (c\<lparr>app := exec b (app c), runs := (runs c)[i := (inp, Suc k)]\<rparr>)))
           else None)
      | ClickAnalyze \<Rightarrow>
          (if length (logs (app c)) = 0 \<or> isAnalyzing (app c) then None
           else (case handleAnalyze_begin P (app c) of
                   (s1, None) \<Rightarrow> Some (c\<lparr>app := s1\<rparr>)
                 | (s1, Some req) \<Rightarrow> Some (c\<lparr>app := s1, pending := pending c @ [req]\<rparr>)))
      | ServiceAnswers i a e \<Rightarrow>
          (if i < length (pending c) then
             Some (c\<lparr>app := handleAnalyze_end P a e (app c),
                      pending := take i (pending c) @ drop (Suc i) (pending c)\<rparr>)
           else None)
      | ClickReset \<Rightarrow> Some (c\<lparr>app := resetSimulator (app c)\<rparr>))"

fun fire_all :: "platform \<Rightarrow> event list \<Rightarrow> config \<Rightarrow> config option" where
  "fire_all P [] c = Some c"
| "fire_all P (ev # evs) c = (case fire P ev c of None \<Rightarrow> None | Some c' \<Rightarrow> fire_all P evs c')"


text \<open>
  An event in which the service does not return a response without text: any event but
  an answer, an answer that is a failure of the call, or an answer whose response has a
  text that is not empty.
\<close>

definition answered_with_text :: "event \<Rightarrow> bool" where
  "answered_with_text ev =
     (case ev of
        ServiceAnswers i a e \<Rightarrow>
          (case a of
             Threw err \<Rightarrow> True
           | Returned r \<Rightarrow> (case text' r of None \<Rightarrow> False | Some t \<Rightarrow> t \<noteq> []))
      | _ \<Rightarrow> True)"

text \<open>
  The value the parser returned for the text of the response an event carries, if the
  event is an answer with a response that has a text the parser accepts; and these
  values for a sequence of events, in the order of the answers.
\<close>

definition parsed_of :: "platform \<Rightarrow> event \<Rightarrow> json list" where
  "parsed_of P ev =
     (case ev of
        ServiceAnswers i a e \<Rightarrow>
          (case a of
             Threw err \<Rightarrow> []
           | Returned r \<Rightarrow>
               (case text' r of
                  None \<Rightarrow> []
                | Some t \<Rightarrow> (case JSON_parse P t of Returned v \<Rightarrow> [v] | Threw err \<Rightarrow> [])))
      | _ \<Rightarrow> [])"

definition parsed :: "platform \<Rightarrow> event list \<Rightarrow> json list" where
  "parsed P evs = concat (map (parsed_of P) evs)"

section \<open>The library functions, as ECMAScript defines them\<close>

subsection \<open>\<^verbatim>\<open>JSON.parse\<close>\<close>

text \<open>
  A reading of the JSON grammar for the closed examples below, in two passes: the text
  is cut into tokens, then the tokens are read with a stack of the arrays and objects
  that are still open. Two things are left out. A number keeps the exact value of its
  literal, where JavaScript rounds it to a double. And the characters of this model
  are the 256 code units up to \<open>FF\<close>: an escape \<^verbatim>\<open>\uXXXX\<close> above that is refused here,
  where JavaScript accepts it.
\<close>

datatype token = LBrace | RBrace | LBracket | RBracket | Colon | Comma | Lit json

definition is_digit :: "char \<Rightarrow> bool" where
  "is_digit c = (c \<in> set ''0123456789'')"

definition is_space :: "char \<Rightarrow> bool" where
  "is_space c = (c \<in> set [CHR 0x20, CHR 0x09, CHR 0x0A, CHR 0x0D])"

definition decimal :: "string \<Rightarrow> nat" where
  "decimal ds = foldl (\<lambda>n c. 10 * n + (of_char c - 48)) 0 ds"

definition hex_value :: "char \<Rightarrow> nat option" where
  "hex_value c =
     (if is_digit c then Some (of_char c - 48)
      else if c \<in> set ''abcdef'' then Some (of_char c - 87)
      else if c \<in> set ''ABCDEF'' then Some (of_char c - 55)
      else None)"

fun hex4 :: "string \<Rightarrow> nat option" where
  "hex4 [a, b, c, d] =
     (case (hex_value a, hex_value b, hex_value c, hex_value d) of
        (Some x, Some y, Some z, Some w) \<Rightarrow> Some (((x * 16 + y) * 16 + z) * 16 + w)
      | _ \<Rightarrow> None)"
| "hex4 _ = None"

text \<open>The character after a backslash: quote, backslash, slash, and \<open>b f n r t\<close>.\<close>

definition escape :: "char \<Rightarrow> char option" where
  "escape c =
     (if c = CHR 0x22 \<or> c = CHR 0x5C \<or> c = CHR ''/'' then Some c
      else if c = CHR ''b'' then Some (CHR 0x08)
      else if c = CHR ''f'' then Some (CHR 0x0C)
      else if c = CHR ''n'' then Some (CHR 0x0A)
      else if c = CHR ''r'' then Some (CHR 0x0D)
      else if c = CHR ''t'' then Some (CHR 0x09)
      else None)"

text \<open>
  A string, from the character after its opening quote: its value and the text after
  its closing quote. A control character must be escaped.
\<close>

fun lex_string :: "string \<Rightarrow> (string \<times> string) option" where
  "lex_string [] = None"
| "lex_string (c # cs) =
     (if c = CHR 0x22 then Some ([], cs)
      else if c = CHR 0x5C then
        (case cs of
           [] \<Rightarrow> None
         | e # cs' \<Rightarrow>
             if e = CHR ''u'' then
               (case hex4 (take 4 cs') of
                  None \<Rightarrow> None
                | Some n \<Rightarrow>
                    if n < 256
                    then map_option (apfst (Cons (char_of n))) (lex_string (drop 4 cs'))
                    else None)
             else
               (case escape e of
                  None \<Rightarrow> None
                | Some x \<Rightarrow> map_option (apfst (Cons x)) (lex_string cs')))
      else if (of_char c :: nat) < 32 then None
      else map_option (apfst (Cons c)) (lex_string cs))"

text \<open>
  A number: an optional minus, an integer part without a leading zero (unless it is 0),
  an optional fraction, an optional exponent. Each part gives its value and the text
  after it.
\<close>

definition digits :: "string \<Rightarrow> string \<times> string" where
  "digits cs = (takeWhile is_digit cs, dropWhile is_digit cs)"

definition lex_sign :: "string \<Rightarrow> bool \<times> string" where
  "lex_sign cs =
     (case cs of
        [] \<Rightarrow> (False, [])
      | c # r \<Rightarrow> if c = CHR ''-'' then (True, r) else (False, c # r))"

definition lex_int :: "string \<Rightarrow> (rat \<times> string) option" where
  "lex_int cs =
     (case digits cs of
        (ds, r) \<Rightarrow>
          if ds = [] \<or> (1 < length ds \<and> take 1 ds = ''0'') then None
          else Some (of_nat (decimal ds), r))"

definition lex_frac :: "string \<Rightarrow> (rat \<times> string) option" where
  "lex_frac cs =
     (case cs of
        [] \<Rightarrow> Some (0, [])
      | c # r \<Rightarrow>
          if c = CHR ''.'' then
            (case digits r of
               (ds, r') \<Rightarrow>
                 if ds = [] then None else Some (of_nat (decimal ds) / 10 ^ length ds, r'))
          else Some (0, c # r))"

definition lex_exp :: "string \<Rightarrow> (rat \<times> string) option" where
  "lex_exp cs =
     (case cs of
        [] \<Rightarrow> Some (1, [])
      | c # r \<Rightarrow>
          if c = CHR ''e'' \<or> c = CHR ''E'' then
            (case lex_sign (if take 1 r = ''+'' then drop 1 r else r) of
               (neg, r1) \<Rightarrow>
                 (case digits r1 of
                    (ds, r2) \<Rightarrow>
                      if ds = [] \<or> take 2 r = ''+-'' then None
                      else Some (if neg then 1 / 10 ^ decimal ds else 10 ^ decimal ds, r2)))
          else Some (1, c # r))"

definition lex_number :: "string \<Rightarrow> (rat \<times> string) option" where
  "lex_number cs =
     (case lex_sign cs of
        (neg, cs1) \<Rightarrow>
          (case lex_int cs1 of
             None \<Rightarrow> None
           | Some (i, cs2) \<Rightarrow>
               (case lex_frac cs2 of
                  None \<Rightarrow> None
                | Some (f, cs3) \<Rightarrow>
                    (case lex_exp cs3 of
                       None \<Rightarrow> None
                     | Some (x, cs4) \<Rightarrow>
                         Some ((if neg then - (i + f) else i + f) * x, cs4)))))"

lemma lex_string_rest: "lex_string cs = Some (s, r) \<Longrightarrow> length r < length cs"
proof (induction cs arbitrary: s r rule: lex_string.induct)
  case 1
  then show ?case by simp
next
  case (2 c cs)
  then show ?case
    by (fastforce split: if_splits list.splits option.splits)
qed

lemma digits_rest: "digits cs = (ds, r) \<Longrightarrow> length r \<le> length cs"
  by (auto simp: digits_def length_dropWhile_le)

lemma digits_rest_less: "digits cs = (ds, r) \<Longrightarrow> ds \<noteq> [] \<Longrightarrow> length r < length cs"
  by (cases cs) (auto simp: digits_def less_Suc_eq_le length_dropWhile_le split: if_splits)

lemma lex_sign_rest: "lex_sign cs = (b, r) \<Longrightarrow> length r \<le> length cs"
  by (auto simp: lex_sign_def split: list.splits if_splits)

lemma lex_int_rest: "lex_int cs = Some (i, r) \<Longrightarrow> length r < length cs"
  by (auto simp: lex_int_def split: prod.splits if_splits dest: digits_rest_less)

lemma lex_frac_rest: "lex_frac cs = Some (f, r) \<Longrightarrow> length r \<le> length cs"
  by (auto simp: lex_frac_def split: list.splits prod.splits if_splits dest!: digits_rest)

lemma lex_exp_rest: "lex_exp cs = Some (x, r) \<Longrightarrow> length r \<le> length cs"
  by (auto simp: lex_exp_def split: list.splits prod.splits if_splits
      dest!: digits_rest lex_sign_rest)

lemma lex_number_rest: "lex_number cs = Some (v, r) \<Longrightarrow> length r < length cs"
  by (auto simp: lex_number_def split: prod.splits option.splits
      dest!: lex_sign_rest lex_int_rest lex_frac_rest lex_exp_rest)

text \<open>The tokens of a text. White space separates tokens and is dropped.\<close>

function lex :: "string \<Rightarrow> token list option" where
  "lex [] = Some []"
| "lex (c # cs) =
     (if is_space c then lex cs
      else if c = CHR ''{'' then map_option (Cons LBrace) (lex cs)
      else if c = CHR ''}'' then map_option (Cons RBrace) (lex cs)
      else if c = CHR ''['' then map_option (Cons LBracket) (lex cs)
      else if c = CHR '']'' then map_option (Cons RBracket) (lex cs)
      else if c = CHR '':'' then map_option (Cons Colon) (lex cs)
      else if c = CHR '','' then map_option (Cons Comma) (lex cs)
      else if c = CHR 0x22 then
        (case lex_string cs of
           None \<Rightarrow> None
         | Some (s, r) \<Rightarrow> map_option (Cons (Lit (JString s))) (lex r))
      else if c = CHR ''-'' \<or> is_digit c then
        (case lex_number (c # cs) of
           None \<Rightarrow> None
         | Some (v, r) \<Rightarrow> map_option (Cons (Lit (JNumber v))) (lex r))
      else if take 4 (c # cs) = ''true''
        then map_option (Cons (Lit (JBool True))) (lex (drop 3 cs))
      else if take 5 (c # cs) = ''false''
        then map_option (Cons (Lit (JBool False))) (lex (drop 4 cs))
      else if take 4 (c # cs) = ''null''
        then map_option (Cons (Lit JNull)) (lex (drop 3 cs))
      else None)"
  by pat_completeness auto
termination
proof (relation "measure length", goal_cases)
  case (9 c cs x2 x y)
  then show ?case using lex_string_rest [of cs x y] by simp
next
  case (10 c cs x2 x y)
  then show ?case using lex_number_rest [of "c # cs" x y] by simp
qed simp_all

text \<open>
  Setting a member of an object: a key that is there keeps its place and takes the new
  value, a new key goes to the end.
\<close>

fun put :: "string \<Rightarrow> json \<Rightarrow> (string \<times> json) list \<Rightarrow> (string \<times> json) list" where
  "put k v [] = [(k, v)]"
| "put k v ((k', v') # ms) = (if k = k' then (k, v) # ms else (k', v') # put k v ms)"

text \<open>
  The stack holds, for each open array, its elements so far, and for each open object,
  its members so far and the key whose value is being read. \<open>want_value\<close> reads the
  tokens where a value must start, \<open>want_key\<close> where a key and its colon must stand, and
  \<open>after_value\<close> has a value and reads what may follow it.
\<close>

datatype frame = ArrayFrame "json list" | ObjectFrame "(string \<times> json) list" string

fun want_value :: "frame list \<Rightarrow> token list \<Rightarrow> json option"
  and want_key :: "(string \<times> json) list \<Rightarrow> frame list \<Rightarrow> token list \<Rightarrow> json option"
  and after_value :: "json \<Rightarrow> frame list \<Rightarrow> token list \<Rightarrow> json option" where
  "want_value st [] = None"
| "want_value st (t # ts) =
     (case t of
        Lit v \<Rightarrow> after_value v st ts
      | LBracket \<Rightarrow>
          (case ts of
             RBracket # ts' \<Rightarrow> after_value (JArray []) st ts'
           | _ \<Rightarrow> want_value (ArrayFrame [] # st) ts)
      | LBrace \<Rightarrow>
          (case ts of
             RBrace # ts' \<Rightarrow> after_value (JObject []) st ts'
           | _ \<Rightarrow> want_key [] st ts)
      | _ \<Rightarrow> None)"
| "want_key ms st [] = None"
| "want_key ms st (t # ts) =
     (case t of
        Lit (JString k) \<Rightarrow>
          (case ts of Colon # ts' \<Rightarrow> want_value (ObjectFrame ms k # st) ts' | _ \<Rightarrow> None)
      | _ \<Rightarrow> None)"
| "after_value v st [] = (case st of [] \<Rightarrow> Some v | _ \<Rightarrow> None)"
| "after_value v st (t # ts) =
     (case st of
        [] \<Rightarrow> None
      | ArrayFrame xs # st' \<Rightarrow>
          (case t of
             Comma \<Rightarrow> want_value (ArrayFrame (xs @ [v]) # st') ts
           | RBracket \<Rightarrow> after_value (JArray (xs @ [v])) st' ts
           | _ \<Rightarrow> None)
      | ObjectFrame ms k # st' \<Rightarrow>
          (case t of
             Comma \<Rightarrow> want_key (put k v ms) st' ts
           | RBrace \<Rightarrow> after_value (JObject (put k v ms)) st' ts
           | _ \<Rightarrow> None))"

definition ecma_JSON_parse :: "string \<Rightarrow> json outcome" where
  "ecma_JSON_parse t =
     (case lex t of
        None \<Rightarrow> Threw SyntaxError
      | Some ts \<Rightarrow>
          (case want_value [] ts of None \<Rightarrow> Threw SyntaxError | Some v \<Rightarrow> Returned v))"

subsection \<open>\<^verbatim>\<open>Date.prototype.toISOString\<close>\<close>

text \<open>
  The instant \<open>t\<close>, in milliseconds since 1970-01-01T00:00:00Z, written as
  \<^verbatim>\<open>YYYY-MM-DDTHH:mm:ss.sssZ\<close> in the proleptic Gregorian calendar; a year outside
  0 to 9999 is written with a sign and six digits. (JavaScript throws a RangeError
  beyond 8.64e15 milliseconds from the epoch; readings of \<^verbatim>\<open>Date.now()\<close> are far
  inside.)
\<close>

definition pad :: "nat \<Rightarrow> nat \<Rightarrow> string" where
  "pad w n = replicate (w - length (show_nat n)) CHR ''0'' @ show_nat n"

text \<open>
  Year, month and day of the day number \<open>z\<close> (days since 1970-01-01), by the usual
  computation in eras of 400 years that start on 1 March: \<open>doe\<close> is the day of the era,
  \<open>yoe\<close> the year of the era, \<open>doy\<close> the day of the year and \<open>mp\<close> the month, both
  counted from 1 March.
\<close>

definition year_of_era :: "int \<Rightarrow> int" where
  "year_of_era doe = (doe - doe div 1460 + doe div 36524 - doe div 146096) div 365"

definition day_of_year :: "int \<Rightarrow> int \<Rightarrow> int" where
  "day_of_year doe yoe = doe - (365 * yoe + yoe div 4 - yoe div 100)"

definition month_from_march :: "int \<Rightarrow> int" where
  "month_from_march doy = (5 * doy + 2) div 153"

definition civil :: "int \<Rightarrow> int \<Rightarrow> int \<Rightarrow> int \<Rightarrow> int \<times> nat \<times> nat" where
  "civil era yoe doy mp =
     (yoe + era * 400 + (if mp < 10 then 0 else 1),
      nat (if mp < 10 then mp + 3 else mp - 9),
      nat (doy - (153 * mp + 2) div 5 + 1))"

definition civil_from_days :: "int \<Rightarrow> int \<times> nat \<times> nat" where
  "civil_from_days z =
     civil ((z + 719468) div 146097)
       (year_of_era ((z + 719468) mod 146097))
       (day_of_year ((z + 719468) mod 146097) (year_of_era ((z + 719468) mod 146097)))
       (month_from_march
         (day_of_year ((z + 719468) mod 146097) (year_of_era ((z + 719468) mod 146097))))"

definition year_text :: "int \<Rightarrow> string" where
  "year_text y =
     (if 0 \<le> y \<and> y \<le> 9999 then pad 4 (nat y)
      else (if y < 0 then ''-'' else ''+'') @ pad 6 (nat \<bar>y\<bar>))"

definition time_text :: "int \<Rightarrow> string" where
  "time_text ms =
     pad 2 (nat (ms div 3600000)) @ '':'' @ pad 2 (nat (ms div 60000 mod 60)) @ '':''
     @ pad 2 (nat (ms div 1000 mod 60)) @ ''.'' @ pad 3 (nat (ms mod 1000))"

definition ecma_toISOString :: "int \<Rightarrow> string" where
  "ecma_toISOString t =
     (case civil_from_days (t div 86400000) of
        (y, m, d) \<Rightarrow>
          year_text y @ ''-'' @ pad 2 m @ ''-'' @ pad 2 d @ ''T''
          @ time_text (t mod 86400000) @ ''Z'')"

text \<open>The platform the closed examples run on.\<close>

definition ecma :: platform where
  "ecma = \<lparr>JSON_parse = ecma_JSON_parse, toISOString = ecma_toISOString\<rparr>"

section \<open>Inputs for the closed examples\<close>

text \<open>
  Readings for the calls of \<^verbatim>\<open>addLog\<close>: the same draw each time, and clock readings two
  seconds apart.
\<close>

definition readings :: "nat \<Rightarrow> stamp" where
  "readings k = \<lparr>random36 = ''0.4fzyo82mvyr'', now = 1700000000000 + 2000 * int k\<rparr>"

text \<open>A run's readings, and the state when the page has just loaded.\<close>

definition inputs :: sim_inputs where
  "inputs = \<lparr>stamps = readings, pick = 137\<rparr>"

definition loaded :: config where
  "loaded = start 1700000000000 1700000000000"

text \<open>Two draws that differ, and agree on the nine characters \<^verbatim>\<open>addLog\<close> keeps.\<close>

definition first_draw :: stamp where
  "first_draw = \<lparr>random36 = ''0.4fzyo82mvyr'', now = 1700000000000\<rparr>"

definition second_draw :: stamp where
  "second_draw = \<lparr>random36 = ''0.4fzyo82mvzz'', now = 1700000002000\<rparr>"

text \<open>
  Response texts: one that matches the schema, one that is JSON and misses three of the
  four members, one that is not JSON.
\<close>

definition quoted :: "string \<Rightarrow> string" where
  "quoted s = [CHR 0x22] @ s @ [CHR 0x22]"

definition payload_text :: string where
  "payload_text =
     ''{'' @ quoted ''vulnerabilityScore'' @ '': 85, ''
     @ quoted ''threatType'' @ '': '' @ quoted ''PIN Bypass'' @ '', ''
     @ quoted ''recommendations'' @ '': ['' @ quoted ''Enforce online PIN'' @ '', ''
     @ quoted ''Reject CVM downgrade'' @ ''], ''
     @ quoted ''summary'' @ '': '' @ quoted ''Terminal accepted a forged CVM result.'' @ ''}''"

definition payload :: json where
  "payload =
     AnalysisResult 85 ''PIN Bypass'' [''Enforce online PIN'', ''Reject CVM downgrade'']
       ''Terminal accepted a forged CVM result.''"

definition partial_text :: string where
  "partial_text = ''{'' @ quoted ''vulnerabilityScore'' @ '': 85}''"

definition error_page :: string where
  "error_page = ''<html><body>502 Bad Gateway</body></html>''"

section \<open>Facts about the statements\<close>

lemmas setters = setState_def setLogs_def setSelectedAmount_def setAnalysis_def setIsAnalyzing_def

lemma addLog_eq: "addLog e msg lvl d s = s\<lparr>logs := logs s @ [newLog e msg lvl d]\<rparr>"
  by (simp add: addLog_def setLogs_def)

lemma exec_Nil: "exec [] s = s"
  by (simp add: exec_def)

lemma exec_Cons: "exec (f # fs) s = exec fs (f s)"
  by (simp add: exec_def)

lemma resetSimulator_eq:
  "resetSimulator s = s\<lparr>state := IDLE, logs := [], selectedAmount := 0, analysis := JNull\<rparr>"
  by (simp add: resetSimulator_def exec_Cons exec_Nil setters)

lemma addLog_logs: "logs (addLog e msg lvl d s) = logs s @ [newLog e msg lvl d]"
  by (simp add: addLog_eq)

text \<open>The state a whole run leaves, when nothing else happens in between.\<close>

lemma run_eq:
  "run inp s =
     s\<lparr>state := COMPLETED,
       logs := logs s @
         [newLog (stamps inp 0) ''NFC Controller initialized. Listening for targets...'' INFO None,
          newLog (stamps inp 1) ''Target Card Detected: ISO/IEC 14443 Type A'' SUCCESS
            (Some (JObject [(''uid'', JString ''04:A2:F1:C9'')])),
          newLog (stamps inp 2) ''Executing PIN Bypass Payload (Modifying 0x9F34 CVM Results)...''
            WARNING None,
          newLog (stamps inp 3) ''CVM verification bypassed. Authorized for Offline PIN.''
            SUCCESS None,
          newLog (stamps inp 4)
            (''Force-selecting withdrawal amount: $'' @ show_int (pick inp + 20)) INFO None,
          newLog (stamps inp 5) ''Broadcasting encrypted payload to reader...'' INFO None,
          newLog (stamps inp 6)
            (''Simulation complete. Transaction accepted by mock gateway. Total: $''
              @ show_int (pick inp + 20)) SUCCESS None],
       selectedAmount := pick inp + 20,
       analysis := JNull\<rparr>"
  by (simp add: run_def statements_def startSimulation_def Let_def exec_Cons exec_Nil
      addLog_eq setters)

text \<open>What every block of a run does and leaves alone, whatever state it resumes in.\<close>

lemma block_index: "block inp k = Some b \<Longrightarrow> k \<in> {0, 1, 2, 3, 4, 5}"
proof -
  assume "block inp k = Some b"
  then have "k < 6"
    by (simp add: block_def startSimulation_def Let_def split: if_splits)
  then show ?thesis by auto
qed

lemma block_appends:
  assumes "block inp k = Some b"
  shows "prefix (logs s) (logs (exec b s))"
  using assms block_index [OF assms]
  by (auto simp: block_def startSimulation_def Let_def exec_Cons exec_Nil addLog_eq setters)


lemma block_analysis:
  assumes "block inp k = Some b"
  shows "analysis (exec b s) = (if k = 0 then JNull else analysis s)"
  using assms block_index [OF assms]
  by (auto simp: block_def startSimulation_def Let_def exec_Cons exec_Nil addLog_eq setters)

text \<open>What the second part of \<^verbatim>\<open>handleAnalyze\<close> does to the log and to the result.\<close>

lemma handleAnalyze_end_logs:
  "logs (handleAnalyze_end P a e s) =
     logs s @
       [case analyzeNFCLogs_response P a of
          Returned v \<Rightarrow> newLog e ''Gemini AI Analysis complete.'' SUCCESS None
        | Threw err \<Rightarrow> newLog e ''Failed to analyze logs with Gemini.'' ERROR None]"
  by (simp add: handleAnalyze_end_def exec_Cons exec_Nil addLog_eq setters split: outcome.splits)

lemma handleAnalyze_end_analysis:
  "analysis (handleAnalyze_end P a e s) =
     (case analyzeNFCLogs_response P a of Returned v \<Rightarrow> v | Threw err \<Rightarrow> analysis s)"
  by (simp add: handleAnalyze_end_def exec_Cons exec_Nil addLog_eq setters split: outcome.splits)


section \<open>Facts about the library functions\<close>

text \<open>The two functions on some texts and on an instant, computed.\<close>

lemma ecma_parse_braces: "ecma_JSON_parse ''{}'' = Returned (JObject [])"
  by (simp add: ecma_JSON_parse_def is_space_def)

lemma ecma_parse_payload: "ecma_JSON_parse payload_text = Returned payload"
  by code_simp

lemma ecma_parse_partial:
  "ecma_JSON_parse partial_text = Returned (JObject [(''vulnerabilityScore'', JNumber 85)])"
  by code_simp

lemma ecma_parse_error_page: "ecma_JSON_parse error_page = Threw SyntaxError"
  by code_simp

lemma ecma_parse_empty: "ecma_JSON_parse [] = Threw SyntaxError"
  by (simp add: ecma_JSON_parse_def)

lemma ecma_parse_null: "ecma_JSON_parse ''null'' = Returned JNull"
  by code_simp

lemma ecma_parse_array:
  "ecma_JSON_parse '' [1, -2.5e-1, true, [], {}] '' =
     Returned (JArray [JNumber 1, JNumber (- 1 / 4), JBool True, JArray [], JObject []])"
  by code_simp

lemma ecma_parse_trailing_comma: "ecma_JSON_parse ''[1,]'' = Threw SyntaxError"
  by code_simp

lemma ecma_parse_two_values: "ecma_JSON_parse ''{} {}'' = Threw SyntaxError"
  by code_simp

lemma replicate_numeral: "replicate (numeral k) x = x # replicate (pred_numeral k) x"
  by (simp add: numeral_eq_Suc)

lemma ecma_toISOString_example: "ecma_toISOString 1700000000000 = ''2023-11-14T22:13:20.000Z''"
  by (simp add: ecma_toISOString_def civil_from_days_def civil_def month_from_march_def
      day_of_year_def year_of_era_def year_text_def time_text_def pad_def show_nat.simps
      replicate_numeral)

lemma is_AnalysisResult_fallback: "is_AnalysisResult fallback"
  by (simp add: fallback_def AnalysisResult_def has_member_def)

lemma is_AnalysisResult_payload: "is_AnalysisResult payload"
  by (simp add: payload_def AnalysisResult_def has_member_def)

section \<open>Facts about the events\<close>



lemma fire_installs:
  assumes "fire P ev c = Some c'" and "answered_with_text ev"
  shows "analysis (app c') \<in> set (analysis (app c) # JNull # fallback # parsed_of P ev)"
proof (cases ev)
  case (ClickStart inp)
  with assms(1) obtain b where "block inp 0 = Some b" and "app c' = exec b (app c)"
    by (auto simp: fire_def split: if_splits option.splits)
  then show ?thesis
    using block_analysis [of inp 0 b "app c"] by simp
next
  case (TimerFires i)
  with assms(1) obtain inp k b where b: "block inp k = Some b" and "app c' = exec b (app c)"
    by (auto simp: fire_def split: if_splits option.splits prod.splits)
  then show ?thesis
    using block_analysis [OF b, of "app c"] by simp
next
  case ClickAnalyze
  with assms(1) show ?thesis
    by (auto simp: fire_def handleAnalyze_begin_def setters split: if_splits)
next
  case (ServiceAnswers i a e)
  with assms show ?thesis
    by (auto simp: fire_def handleAnalyze_end_analysis answered_with_text_def
        analyzeNFCLogs_response_def or_else_def parsed_of_def
        split: if_splits outcome.splits option.splits)
next
  case ClickReset
  with assms(1) show ?thesis
    by (auto simp: fire_def resetSimulator_eq)
qed

lemma fire_all_installs:
  assumes "fire_all P evs c = Some c'" and "list_all answered_with_text evs"
  shows "analysis (app c') \<in> set (analysis (app c) # JNull # fallback # parsed P evs)"
  using assms
proof (induction evs arbitrary: c)
  case Nil
  then show ?case by simp
next
  case (Cons ev evs)
  then obtain c1 where c1: "fire P ev c = Some c1" and rest: "fire_all P evs c1 = Some c'"
    by (auto split: option.splits)
  from Cons.prems(2) have ev: "answered_with_text ev" and evs: "list_all answered_with_text evs"
    by simp_all
  from fire_installs [OF c1 ev] Cons.IH [OF rest evs] show ?case
    by (auto simp: parsed_def)
qed

lemma has_four_fields_fallback: "has_four_fields fallback"
  by (simp add: fallback_def AnalysisResult_def)

text \<open>
  The events of the examples: the page has loaded, the user starts a run, clicks the
  analysis button while the run waits for its first timer, and the service answers.
\<close>

lemma analysed_once:
  "fire_all ecma [ClickStart inputs, ClickAnalyze, ServiceAnswers 0 a second_draw] loaded =
     Some \<lparr>app =
             handleAnalyze_end ecma a second_draw
               ((initial 1700000000000 1700000000000)
                  \<lparr>state := SCANNING,
                   logs := [newLog (readings 0)
                     ''NFC Controller initialized. Listening for targets...'' INFO None],
                   isAnalyzing := True\<rparr>),
           runs = [(inputs, 1)],
           pending = []\<rparr>"
  by (simp add: fire_def block_def startSimulation_def Let_def loaded_def start_def initial_def
      inputs_def exec_Cons exec_Nil addLog_eq setters handleAnalyze_begin_def)

section \<open>The claims\<close>

text \<open>
  C1, as the code has it. The \<^verbatim>\<open>try\<close> block holds the parsing only. When the service
  has returned a response with a text that is not empty and \<^verbatim>\<open>JSON.parse\<close> throws on it,
  \<^verbatim>\<open>analyzeNFCLogs\<close> returns the fixed fallback record and the error goes no further.
  When the call to the service itself fails, \<^verbatim>\<open>analyzeNFCLogs\<close> fails with the same
  error: its caller \<^verbatim>\<open>handleAnalyze\<close> catches it, appends the entry
  \<^verbatim>\<open>Failed to analyze logs with Gemini.\<close> at level \<^verbatim>\<open>ERROR\<close>, and leaves the analysis
  result as it was.
\<close>

theorem analyzeNFCLogs_failure:
  "(generateContent (analyzeNFCLogs_request P ls) = Returned r \<and> text' r = Some t \<and> t \<noteq> []
      \<and> JSON_parse P t = Threw err
    \<longrightarrow> analyzeNFCLogs P generateContent ls
        = Returned (AnalysisResult 0 ''Analysis Failed''
            [''Ensure API connectivity'', ''Check log formatting'']
            ''Could not generate analysis at this time.''))
   \<and> (generateContent (analyzeNFCLogs_request P ls) = Threw err'
    \<longrightarrow> analyzeNFCLogs P generateContent ls = Threw err'
        \<and> analysis (handleAnalyze_end P (generateContent (analyzeNFCLogs_request P ls)) e s)
            = analysis s
        \<and> logs (handleAnalyze_end P (generateContent (analyzeNFCLogs_request P ls)) e s)
            = logs s @ [newLog e ''Failed to analyze logs with Gemini.'' ERROR None])"
  by (simp add: analyzeNFCLogs_def analyzeNFCLogs_response_def or_else_def fallback_def
      handleAnalyze_end_logs handleAnalyze_end_analysis)

theorem analyzeNFCLogs_failure_witness:
  "analyzeNFCLogs ecma (\<lambda>req. Returned \<lparr>text' = Some error_page\<rparr>)
      [newLog first_draw ''NFC Controller initialized. Listening for targets...'' INFO None]
     = Returned fallback
   \<and> analyzeNFCLogs ecma (\<lambda>req. Threw (ServiceError ''fetch failed''))
      [newLog first_draw ''NFC Controller initialized. Listening for targets...'' INFO None]
     = Threw (ServiceError ''fetch failed'')"
proof -
  have p: "JSON_parse ecma error_page = Threw SyntaxError"
    by (simp add: ecma_def ecma_parse_error_page)
  have t: "error_page \<noteq> []"
    by (simp add: error_page_def)
  show ?thesis
    using p t
      analyzeNFCLogs_failure [of "\<lambda>req. Returned \<lparr>text' = Some error_page\<rparr>" ecma
        "[newLog first_draw ''NFC Controller initialized. Listening for targets...'' INFO None]"
        "\<lparr>text' = Some error_page\<rparr>" error_page SyntaxError]
      analyzeNFCLogs_failure [of "\<lambda>req. Threw (ServiceError ''fetch failed'')" ecma
        "[newLog first_draw ''NFC Controller initialized. Listening for targets...'' INFO None]"
        _ _ _ "ServiceError ''fetch failed''"]
    by (simp add: fallback_def)
qed

text \<open>
  C1 as stated fails when the call to the service fails: the function does not return
  the fallback record, it fails with the error of the call.
\<close>

theorem analyzeNFCLogs_failure_counterexample:
  "analyzeNFCLogs ecma (\<lambda>req. Threw (ServiceError ''fetch failed''))
      [newLog first_draw ''NFC Controller initialized. Listening for targets...'' INFO None]
     = Threw (ServiceError ''fetch failed'')
   \<and> analyzeNFCLogs ecma (\<lambda>req. Threw (ServiceError ''fetch failed''))
      [newLog first_draw ''NFC Controller initialized. Listening for targets...'' INFO None]
     \<noteq> Returned fallback"
  by (simp add: analyzeNFCLogs_def analyzeNFCLogs_response_def)

text \<open>
  C2, as the code has it. A run appends seven entries, not six: the block that follows
  the PIN bypass appends two. A run that nothing interrupts leaves the log seven
  entries longer (so seven entries, from an empty log), the state \<^verbatim>\<open>COMPLETED\<close>, and
  as message of the last entry the closing text followed by the decimal numeral of the
  amount; that amount is the one stored by \<^verbatim>\<open>setSelectedAmount\<close> at the amount selection
  and written in the entry appended there, the fifth of the run.
\<close>

theorem run_appends_seven:
  "length (logs (run inp s)) = length (logs s) + 7
   \<and> take (length (logs s)) (logs (run inp s)) = logs s
   \<and> state (run inp s) = COMPLETED
   \<and> selectedAmount (run inp s) = pick inp + 20
   \<and> message (last (logs (run inp s))) =
       ''Simulation complete. Transaction accepted by mock gateway. Total: $''
       @ show_int (selectedAmount (run inp s))
   \<and> message (logs (run inp s) ! (length (logs s) + 4)) =
       ''Force-selecting withdrawal amount: $'' @ show_int (selectedAmount (run inp s))"
  by (simp add: run_eq newLog_def nth_append)

text \<open>
  C2 as stated fails on the first run after the page has loaded: the log then holds
  seven entries.
\<close>

theorem run_six_entries_counterexample:
  "state (initial 1700000000000 1700000000000) = IDLE
   \<and> length (logs (run inputs (initial 1700000000000 1700000000000))) = 7
   \<and> length (logs (run inputs (initial 1700000000000 1700000000000))) \<noteq> 6"
  by (simp add: run_eq initial_def)

text \<open>
  C3, as the code has it. \<^verbatim>\<open>analyzeNFCLogs\<close> returns what \<^verbatim>\<open>JSON.parse\<close> returns
  without looking at it, and \<^verbatim>\<open>handleAnalyze\<close> installs what it gets. Where every
  response of the service has a text, the analysis result is, at every state the
  application reaches, absent, or the fallback record, or the whole value the parser
  returned for the text of one of the responses: no operation installs anything else,
  and none installs a part of a value. So the result is absent or has the four members
  when every value the parser returned has them, and is absent or has them with their
  declared types when every such value has. A text that is JSON and misses members is
  installed as it is.
\<close>

theorem analysis_is_parsed_response:
  assumes "fire_all P evs (start t0 t1) = Some c"
    and "list_all answered_with_text evs"
  shows "analysis (app c) \<in> set (JNull # fallback # parsed P evs)
         \<and> (list_all has_four_fields (parsed P evs)
              \<longrightarrow> analysis (app c) = JNull \<or> has_four_fields (analysis (app c)))
         \<and> (list_all is_AnalysisResult (parsed P evs)
              \<longrightarrow> analysis (app c) = JNull \<or> is_AnalysisResult (analysis (app c)))"
proof -
  have "analysis (app c) \<in> set (analysis (app (start t0 t1)) # JNull # fallback # parsed P evs)"
    using assms by (rule fire_all_installs)
  then have m: "analysis (app c) \<in> set (JNull # fallback # parsed P evs)"
    by (simp add: start_def initial_def)
  from m have "analysis (app c) = JNull \<or> has_four_fields (analysis (app c))"
    if "list_all has_four_fields (parsed P evs)"
    using that has_four_fields_fallback by (auto simp: list_all_iff)
  moreover from m have "analysis (app c) = JNull \<or> is_AnalysisResult (analysis (app c))"
    if "list_all is_AnalysisResult (parsed P evs)"
    using that is_AnalysisResult_fallback by (auto simp: list_all_iff)
  ultimately show ?thesis
    using m by blast
qed

theorem analysis_is_parsed_response_witness:
  "list_all answered_with_text
     [ClickStart inputs, ClickAnalyze,
      ServiceAnswers 0 (Returned \<lparr>text' = Some payload_text\<rparr>) second_draw]
   \<and> parsed ecma
        [ClickStart inputs, ClickAnalyze,
         ServiceAnswers 0 (Returned \<lparr>text' = Some payload_text\<rparr>) second_draw] = [payload]
   \<and> has_four_fields payload
   \<and> is_AnalysisResult payload
   \<and> (case fire_all ecma
           [ClickStart inputs, ClickAnalyze,
            ServiceAnswers 0 (Returned \<lparr>text' = Some payload_text\<rparr>) second_draw] loaded of
         None \<Rightarrow> False
       | Some c \<Rightarrow>
           analysis (app c) = payload
           \<and> analysis (app c) \<in> set [JNull, fallback, payload]
           \<and> has_four_fields (analysis (app c))
           \<and> is_AnalysisResult (analysis (app c)))"
proof -
  let ?evs = "[ClickStart inputs, ClickAnalyze,
      ServiceAnswers 0 (Returned \<lparr>text' = Some payload_text\<rparr>) second_draw]"
  have t: "payload_text \<noteq> []"
    by (simp add: payload_text_def)
  have p: "JSON_parse ecma payload_text = Returned payload"
    by (simp add: ecma_def ecma_parse_payload)
  have wt: "list_all answered_with_text ?evs"
    using t by (simp add: answered_with_text_def)
  have ps: "parsed ecma ?evs = [payload]"
    using p by (simp add: parsed_def parsed_of_def)
  have f: "has_four_fields payload"
    by (simp add: payload_def AnalysisResult_def)
  define c where "c = \<lparr>app =
             handleAnalyze_end ecma (Returned \<lparr>text' = Some payload_text\<rparr>) second_draw
               ((initial 1700000000000 1700000000000)
                  \<lparr>state := SCANNING,
                   logs := [newLog (readings 0)
                     ''NFC Controller initialized. Listening for targets...'' INFO None],
                   isAnalyzing := True\<rparr>),
           runs = [(inputs, 1)],
           pending = []\<rparr>"
  have c: "fire_all ecma ?evs loaded = Some c"
    unfolding c_def by (rule analysed_once)
  have a: "analysis (app c) = payload"
    using t p
    by (simp add: c_def handleAnalyze_end_analysis analyzeNFCLogs_response_def or_else_def)
  have c': "fire_all ecma ?evs (start 1700000000000 1700000000000) = Some c"
    using c by (simp only: loaded_def)
  from analysis_is_parsed_response [OF c' wt] a ps f is_AnalysisResult_payload wt
  show ?thesis
    by (simp only: c option.case)
qed

text \<open>
  C3 as stated fails. A response whose text is JSON with one of the four members
  installs an object that is not null and has not the four members.
\<close>

theorem analysis_is_parsed_response_counterexample:
  "(case fire_all ecma
          [ClickStart inputs, ClickAnalyze,
           ServiceAnswers 0 (Returned \<lparr>text' = Some partial_text\<rparr>) second_draw] loaded of
        None \<Rightarrow> False
      | Some c \<Rightarrow>
          analysis (app c) = JObject [(''vulnerabilityScore'', JNumber 85)]
          \<and> analysis (app c) \<noteq> JNull
          \<and> \<not> has_four_fields (analysis (app c))
          \<and> \<not> is_AnalysisResult (analysis (app c)))"
proof -
  have t: "partial_text \<noteq> []"
    by (simp add: partial_text_def)
  have p: "JSON_parse ecma partial_text = Returned (JObject [(''vulnerabilityScore'', JNumber 85)])"
    by (simp add: ecma_def ecma_parse_partial)
  show ?thesis
    unfolding analysed_once
    using t p
    by (simp add: handleAnalyze_end_analysis analyzeNFCLogs_response_def or_else_def
        has_member_def)
qed




text \<open>
  C5. Whatever the state before, \<^verbatim>\<open>resetSimulator\<close> leaves the attack state \<^verbatim>\<open>IDLE\<close>,
  the log empty, the analysis result absent and the selected amount 0. (It leaves the
  accounts and \<^verbatim>\<open>isAnalyzing\<close> as they were.)
\<close>

theorem resetSimulator_clears:
  "state (resetSimulator s) = IDLE
   \<and> logs (resetSimulator s) = []
   \<and> analysis (resetSimulator s) = JNull
   \<and> selectedAmount (resetSimulator s) = 0
   \<and> accounts (resetSimulator s) = accounts s
   \<and> isAnalyzing (resetSimulator s) = isAnalyzing s"
  by (simp add: resetSimulator_eq)

text \<open>
  C6. \<^verbatim>\<open>addLog\<close> makes the log exactly one entry longer, keeps every earlier entry
  unchanged at its position (the first entries of the new log, as many as the old log
  had, are the old log), and puts the new entry at the end. And the log only grows
  between resets: every event but a reset leaves a log that starts with the log before
  it.
\<close>

theorem addLog_append_only:
  "length (logs (addLog e msg lvl d s)) = length (logs s) + 1
   \<and> take (length (logs s)) (logs (addLog e msg lvl d s)) = logs s
   \<and> last (logs (addLog e msg lvl d s)) = newLog e msg lvl d
   \<and> (ev \<noteq> ClickReset \<and> fire P ev c = Some c' \<longrightarrow> prefix (logs (app c)) (logs (app c')))"
proof -
  have "prefix (logs (app c)) (logs (app c'))" if "ev \<noteq> ClickReset" and "fire P ev c = Some c'"
  proof (cases ev)
    case (ClickStart inp)
    with that show ?thesis
      by (auto simp: fire_def split: if_splits option.splits intro: block_appends)
  next
    case (TimerFires i)
    with that show ?thesis
      by (auto simp: fire_def split: if_splits option.splits prod.splits intro: block_appends)
  next
    case ClickAnalyze
    with that show ?thesis
      by (auto simp: fire_def handleAnalyze_begin_def setters split: if_splits)
  next
    case (ServiceAnswers i a e')
    with that show ?thesis
      by (auto simp: fire_def handleAnalyze_end_logs split: if_splits)
  next
    case ClickReset
    with that show ?thesis by simp
  qed
  then show ?thesis by (simp add: addLog_logs)
qed

theorem addLog_append_only_witness:
  "length (logs (addLog second_draw ''checked'' INFO None
      (addLog first_draw ''started'' INFO None (initial 0 0)))) = 2
   \<and> (case fire ecma (ClickStart inputs) loaded of
         None \<Rightarrow> False
       | Some c \<Rightarrow>
           length (logs (app c)) = 1
           \<and> (case fire ecma (TimerFires 0) c of
                 None \<Rightarrow> False
               | Some c' \<Rightarrow>
                   TimerFires 0 \<noteq> ClickReset
                   \<and> prefix (logs (app c)) (logs (app c'))
                   \<and> length (logs (app c')) = 2))"
proof -
  obtain c where c: "fire ecma (ClickStart inputs) loaded = Some c"
    by (auto simp: fire_def loaded_def start_def initial_def block_def startSimulation_def Let_def)
  have n1: "length (logs (app c)) = 1"
    using c
    by (auto simp: fire_def loaded_def start_def initial_def block_def startSimulation_def Let_def
        exec_Cons exec_Nil addLog_eq setters)
  obtain c' where c': "fire ecma (TimerFires 0) c = Some c'"
    using c
    by (auto simp: fire_def loaded_def start_def initial_def block_def startSimulation_def Let_def)
  have n2: "length (logs (app c')) = 2"
    using c c'
    by (auto simp: fire_def loaded_def start_def initial_def block_def startSimulation_def Let_def
        exec_Cons exec_Nil addLog_eq setters)
  have "prefix (logs (app c)) (logs (app c'))"
    using addLog_append_only [of first_draw "''started''" INFO None "initial 0 0" "TimerFires 0" ecma c c'] c'
    by simp
  moreover have "length (logs (addLog second_draw ''checked'' INFO None
      (addLog first_draw ''started'' INFO None (initial 0 0)))) = 2"
    using addLog_append_only [of second_draw "''checked''" INFO None
        "addLog first_draw ''started'' INFO None (initial 0 0)" ClickReset ecma loaded loaded]
    by (simp add: addLog_logs initial_def)
  ultimately show ?thesis
    using c c' n1 n2 by simp
qed

text \<open>
  C7. Called with an empty log, \<^verbatim>\<open>handleAnalyze\<close> returns at its first line: it sends no
  request to the service and leaves every cell, the analysis result among them, as it
  was.
\<close>

theorem handleAnalyze_empty_log:
  assumes "logs s = []"
  shows "handleAnalyze_begin P s = (s, None)
         \<and> handleAnalyze P generateContent e s = (s, [])
         \<and> analysis (fst (handleAnalyze P generateContent e s)) = analysis s"
  using assms by (simp add: handleAnalyze_def handleAnalyze_begin_def)

theorem handleAnalyze_empty_log_witness:
  "logs (initial 0 0) = []
   \<and> handleAnalyze ecma (\<lambda>req. Returned \<lparr>text' = Some payload_text\<rparr>) first_draw (initial 0 0)
       = (initial 0 0, [])"
proof -
  have h: "logs (initial 0 0) = []"
    by (simp add: initial_def)
  show ?thesis
    using h handleAnalyze_empty_log [OF h, of ecma "\<lambda>req. Returned \<lparr>text' = Some payload_text\<rparr>"
        first_draw]
    by simp
qed

text \<open>
  C8, as the code has it. The identifier of a new entry is the nine characters that
  follow the first two of the base-36 text of a random draw, and its timestamp is the
  clock reading at creation. Nothing compares the identifier with the earlier ones: the
  identifiers of the log are pairwise distinct after the call exactly when they were
  before and no earlier entry has the same nine characters.
\<close>

theorem addLog_identifier:
  "id' (last (logs (addLog e msg lvl d s))) = substr 2 9 (random36 e)
   \<and> timestamp (last (logs (addLog e msg lvl d s))) = now e
   \<and> distinct (map id' (logs (addLog e msg lvl d s))) =
       (distinct (map id' (logs s)) \<and> substr 2 9 (random36 e) \<notin> id' ` set (logs s))"
  by (auto simp: addLog_logs newLog_def)

text \<open>
  C8 as stated fails: two draws that differ after their eleventh character give two
  entries the same identifier.
\<close>

theorem addLog_identifier_counterexample:
  "random36 first_draw \<noteq> random36 second_draw
   \<and> map id' (logs (addLog second_draw ''Target Card Detected: ISO/IEC 14443 Type A'' SUCCESS None
        (addLog first_draw ''NFC Controller initialized. Listening for targets...'' INFO None
          (initial 0 0))))
       = [''4fzyo82mv'', ''4fzyo82mv'']"
  by (simp add: addLog_logs newLog_def substr_def initial_def first_draw_def second_draw_def)

text \<open>
  C9. When the call to the service returns a response whose text is not empty and
  \<^verbatim>\<open>JSON.parse\<close> returns a value for it, \<^verbatim>\<open>analyzeNFCLogs\<close> returns that value as it
  is. This holds for every log and every parsed value, so in particular for a log that
  is not empty and a value that matches the schema.
\<close>

theorem analyzeNFCLogs_returns_payload:
  assumes "generateContent (analyzeNFCLogs_request P ls) = Returned r"
    and "text' r = Some t"
    and "t \<noteq> []"
    and "JSON_parse P t = Returned v"
  shows "analyzeNFCLogs P generateContent ls = Returned v"
  using assms by (simp add: analyzeNFCLogs_def analyzeNFCLogs_response_def or_else_def)

theorem analyzeNFCLogs_returns_payload_witness:
  "payload_text \<noteq> []
   \<and> JSON_parse ecma payload_text = Returned payload
   \<and> is_AnalysisResult payload
   \<and> analyzeNFCLogs ecma (\<lambda>req. Returned \<lparr>text' = Some payload_text\<rparr>)
        [newLog first_draw ''NFC Controller initialized. Listening for targets...'' INFO None]
       = Returned payload"
proof -
  have t: "payload_text \<noteq> []"
    by (simp add: payload_text_def)
  have p: "JSON_parse ecma payload_text = Returned payload"
    by (simp add: ecma_def ecma_parse_payload)
  show ?thesis
    using t p is_AnalysisResult_payload
      analyzeNFCLogs_returns_payload [of "\<lambda>req. Returned \<lparr>text' = Some payload_text\<rparr>" ecma
        "[newLog first_draw ''NFC Controller initialized. Listening for targets...'' INFO None]"
        "\<lparr>text' = Some payload_text\<rparr>" payload_text payload]
    by simp
qed

text \<open>
  C10. The first statement of \<^verbatim>\<open>startSimulation\<close> sets the analysis result to null and
  changes nothing else: it comes before any change of the attack state and before any
  entry is appended. No later statement of the run sets the analysis result: after each
  of the fifteen statements of a run that nothing interrupts, it is absent.
\<close>

theorem startSimulation_clears_analysis_first:
  "take 1 (trace (statements inp) s) = [s\<lparr>analysis := JNull\<rparr>]
   \<and> map analysis (trace (statements inp) s) = replicate 15 JNull
   \<and> analysis (run inp s) = JNull"
  by (simp add: statements_def startSimulation_def Let_def addLog_eq setters run_eq
      replicate_numeral)

section \<open>Two more properties of the application\<close>

lemma block_isAnalyzing:
  assumes "block inp k = Some b"
  shows "isAnalyzing (exec b s) = isAnalyzing s"
  using assms block_index [OF assms]
  by (auto simp: block_def startSimulation_def Let_def exec_Cons exec_Nil addLog_eq setters)

lemma handleAnalyze_end_isAnalyzing: "isAnalyzing (handleAnalyze_end P a e s) = False"
  by (simp add: handleAnalyze_end_def exec_Cons exec_Nil addLog_eq setters split: outcome.splits)

lemma fire_in_flight:
  assumes "fire P ev c = Some c'"
    and "length (pending c) = (if isAnalyzing (app c) then 1 else 0)"
  shows "length (pending c') = (if isAnalyzing (app c') then 1 else 0)"
proof (cases ev)
  case (ClickStart inp)
  with assms(1) obtain b where "block inp 0 = Some b" and "c' = c\<lparr>app := exec b (app c), runs := runs c @ [(inp, 1)]\<rparr>"
    by (auto simp: fire_def split: if_splits option.splits)
  with assms(2) show ?thesis
    by (simp add: block_isAnalyzing)
next
  case (TimerFires i)
  with assms(1) obtain inp k b where "block inp k = Some b"
    and "c' = c\<lparr>app := exec b (app c), runs := (runs c)[i := (inp, Suc k)]\<rparr>"
    by (auto simp: fire_def split: if_splits option.splits prod.splits)
  with assms(2) show ?thesis
    by (simp add: block_isAnalyzing)
next
  case ClickAnalyze
  with assms show ?thesis
    by (auto simp: fire_def handleAnalyze_begin_def setters split: if_splits)
next
  case (ServiceAnswers i a e)
  with assms show ?thesis
    by (auto simp: fire_def handleAnalyze_end_isAnalyzing split: if_splits)
next
  case ClickReset
  with assms show ?thesis
    by (auto simp: fire_def resetSimulator_eq)
qed

text \<open>
  At most one request is in flight. At every state the application reaches, the
  service owes an answer to one request while \<^verbatim>\<open>isAnalyzing\<close> is set, and to none while
  it is not: the analysis button, disabled while \<^verbatim>\<open>isAnalyzing\<close> is set, cannot send a
  second request before the first is answered, and a reset does not touch the flag.
\<close>

theorem one_request_in_flight:
  assumes "fire_all P evs (start t0 t1) = Some c"
  shows "length (pending c) = (if isAnalyzing (app c) then 1 else 0)"
proof -
  have "length (pending c') = (if isAnalyzing (app c') then 1 else 0)"
    if "fire_all P evs c0 = Some c'"
      and "length (pending c0) = (if isAnalyzing (app c0) then 1 else 0)" for c0 c'
    using that
  proof (induction evs arbitrary: c0)
    case Nil
    then show ?case by simp
  next
    case (Cons ev evs)
    then obtain c1 where c1: "fire P ev c0 = Some c1" and rest: "fire_all P evs c1 = Some c'"
      by (auto split: option.splits)
    from fire_in_flight [OF c1 Cons.prems(2)] Cons.IH [OF rest] show ?case
      by blast
  qed
  from this [OF assms] show ?thesis
    by (simp add: start_def initial_def)
qed

theorem one_request_in_flight_witness:
  "(case fire_all ecma [ClickStart inputs, ClickAnalyze, ClickReset] loaded of
      None \<Rightarrow> False
    | Some c \<Rightarrow> isAnalyzing (app c) \<and> length (pending c) = 1 \<and> logs (app c) = [])"
proof -
  obtain c where c: "fire_all ecma [ClickStart inputs, ClickAnalyze, ClickReset] loaded = Some c"
    and a: "isAnalyzing (app c)" and l: "logs (app c) = []"
    by (simp add: fire_def block_def startSimulation_def Let_def loaded_def start_def
        initial_def exec_Cons exec_Nil addLog_eq setters handleAnalyze_begin_def
        resetSimulator_eq)
  from one_request_in_flight [of ecma "[ClickStart inputs, ClickAnalyze, ClickReset]"
      1700000000000 1700000000000 c] c a l
  show ?thesis
    by (simp only: loaded_def option.case) simp
qed

text \<open>
  A reset does not stop a run. After a start and a reset, the run's next timer
  still fires and its block runs on the cells the reset has cleared: the attack state
  leaves \<^verbatim>\<open>IDLE\<close> for \<^verbatim>\<open>CARD_DETECTED\<close> and the log, emptied by the reset, gets the entry
  of the second block as its only entry.
\<close>

theorem reset_does_not_stop_run:
  "map_option (\<lambda>c. (state (app c), logs (app c), map snd (runs c)))
     (fire_all P [ClickStart inp, ClickReset, TimerFires 0] (start t0 t1)) =
   Some (CARD_DETECTED,
         [newLog (stamps inp 1) ''Target Card Detected: ISO/IEC 14443 Type A'' SUCCESS
            (Some (JObject [(''uid'', JString ''04:A2:F1:C9'')]))],
         [2])"
  by (simp add: fire_def block_def startSimulation_def Let_def start_def initial_def
      exec_Cons exec_Nil addLog_eq setters resetSimulator_eq)

end
